theory Spec2Isabelle
  imports Complex_Main
begin

section \<open>Errors and settings\<close>

text \<open>
  The exceptions that the modelled code can raise.  \<open>HttpError\<close> carries the HTTP status of
  a failed API request; \<open>TransportError\<close> stands for every other exception of the client
  library (a broken connection, a malformed key file).
\<close>

datatype error =
    AssertionError
  | KeyError string
  | AttributeError
  | HttpError nat
  | TransportError

text \<open>
  \<open>settings.MIME_TYPES\<close> is a table of constants that the entities import; the operations
  below take it as a parameter.  \<open>google_mime_types\<close> holds the values Google Drive uses.
\<close>

record mime_types =
  mime_folder :: string
  mime_document :: string
  mime_spreadsheet :: string
  mime_docx :: string

definition google_mime_types :: mime_types where
  "google_mime_types =
     \<lparr>mime_folder = ''application/vnd.google-apps.folder'',
      mime_document = ''application/vnd.google-apps.document'',
      mime_spreadsheet = ''application/vnd.google-apps.spreadsheet'',
      mime_docx = ''application/vnd.openxmlformats-officedocument.wordprocessingml.document''\<rparr>"

section \<open>Drive files (file.py)\<close>

text \<open>
  The four wrapper classes.  An object records the class it was built from, its \<open>id\<close>,
  and the \<open>name\<close> and \<open>mime_type\<close> attributes, which \<open>__init__\<close> sets to \<open>None\<close>
  when they are not given.  \<open>set_item_value_input_option\<close> is the class attribute
  \<open>"RAW"\<close> of spreadsheets, which an instance may overwrite.
\<close>

datatype file_class =
    GoogleDriveFile
  | GoogleDriveFolder
  | GoogleDriveDocument
  | GoogleDriveSpreadsheet

record drive_file =
  cls :: file_class
  file_id :: string
  name :: "string option"
  mime_type :: "string option"
  set_item_value_input_option :: string

text \<open>A raw item is the JSON object in which the API describes a file.\<close>

type_synonym item = "string \<rightharpoonup> string"

text \<open>The class attribute \<open>mime_type\<close> of each wrapper class.\<close>

fun class_mime_type :: "mime_types \<Rightarrow> file_class \<Rightarrow> string option" where
  "class_mime_type M GoogleDriveFile = None"
| "class_mime_type M GoogleDriveFolder = Some (mime_folder M)"
| "class_mime_type M GoogleDriveDocument = Some (mime_document M)"
| "class_mime_type M GoogleDriveSpreadsheet = Some (mime_spreadsheet M)"

text \<open>\<open>cls(id, name, mime_type)\<close>: the constructor of \<open>GoogleDriveFile\<close> and its subclasses.\<close>

definition new_file :: "file_class \<Rightarrow> string \<Rightarrow> string option \<Rightarrow> string option \<Rightarrow> drive_file" where
  "new_file c i n m =
     \<lparr>cls = c, file_id = i, name = n, mime_type = m, set_item_value_input_option = ''RAW''\<rparr>"

text \<open>
  \<open>GoogleDriveFile.from_item\<close>, a class method: \<open>item["id"]\<close> raises \<open>KeyError\<close> when the
  key is missing, \<open>item.get\<close> gives \<open>None\<close>.
\<close>

definition from_item :: "file_class \<Rightarrow> item \<Rightarrow> error + drive_file" where
  "from_item c item =
     (case item ''id'' of
        None \<Rightarrow> Inl (KeyError ''id'')
      | Some i \<Rightarrow> Inr (new_file c i (item ''name'') (item ''mimeType'')))"

subsection \<open>GoogleDriveFilesFactory\<close>

text \<open>The dictionary literal \<open>file_classes\<close>: a later entry overwrites an earlier equal key.\<close>

definition file_classes :: "mime_types \<Rightarrow> string \<rightharpoonup> file_class" where
  "file_classes M =
     [mime_folder M \<mapsto> GoogleDriveFolder,
      mime_document M \<mapsto> GoogleDriveDocument,
      mime_spreadsheet M \<mapsto> GoogleDriveSpreadsheet]"

definition default_class :: file_class where
  "default_class = GoogleDriveFile"

text \<open>
  \<open>file_classes.get(mime_type) or default_class\<close>; the argument is \<open>None\<close> when the item
  has no \<open>mimeType\<close>, and \<open>None\<close> is no key of the dictionary.
\<close>

definition get_file_class :: "mime_types \<Rightarrow> string option \<Rightarrow> file_class" where
  "get_file_class M mt =
     (case (case mt of None \<Rightarrow> None | Some m \<Rightarrow> file_classes M m) of
        None \<Rightarrow> default_class
      | Some c \<Rightarrow> c)"

definition factory_from_item :: "mime_types \<Rightarrow> item \<Rightarrow> error + drive_file" where
  "factory_from_item M item = from_item (get_file_class M (item ''mimeType'')) item"

text \<open>The class that matches a MIME type, in the words of the specification.\<close>

definition matching_class :: "mime_types \<Rightarrow> string option \<Rightarrow> file_class" where
  "matching_class M mt =
     (if mt = Some (mime_folder M) then GoogleDriveFolder
      else if mt = Some (mime_document M) then GoogleDriveDocument
      else if mt = Some (mime_spreadsheet M) then GoogleDriveSpreadsheet
      else GoogleDriveFile)"

subsection \<open>The API client\<close>

text \<open>
  The Drive and Sheets services are reached through Google's client library.  A request is
  built first (\<open>service.files().get(fileId=...)\<close>) and sent only by \<open>.execute()\<close>.
  The record below holds what \<open>.execute()\<close> does for each request the entities build: a
  function of the request's arguments and of the remote state \<open>'r\<close>, returning the decoded
  response or the exception raised, and the new remote state.  \<open>'a\<close> is the type of the
  responses that the code hands back without looking into them.

  \<open>build\<close> stands for loading the credentials of a service-account file and building the
  client (\<open>ServiceAccountCredentials.from_json_keyfile_name\<close>, \<open>discovery.build\<close>): it
  gives the exception raised, if any.  \<open>api_service\<close> and \<open>sheets_api_service\<close> are the
  properties \<open>_api_service\<close> and \<open>_sheets_api_service\<close> of an entity, which resolve its
  client through the credentials mixin and the entity managers.

  \<open>set_api_service\<close> is the attribute of that name of a file object.  The classes of
  file.py define no such method, and their bases \<open>FromItemable\<close> and
  \<open>ApiCredentialsMixin\<close> are not among the sources.  The field is \<open>None\<close> when the
  object has no such attribute, so that looking it up raises \<open>AttributeError\<close>;
  otherwise it holds the method, which gives the exception its call raises, if any.
\<close>

type_synonym cells = "string list list"

record ('r, 'a) api =
  build :: "string \<Rightarrow> error option"
  api_service :: "drive_file \<Rightarrow> error option"
  sheets_api_service :: "drive_file \<Rightarrow> error option"
  set_api_service :: "(drive_file \<Rightarrow> error option) option"
  files_get :: "string \<Rightarrow> 'r \<Rightarrow> (error + item) \<times> 'r"
  files_list :: "string \<Rightarrow> 'r \<Rightarrow> (error + item list option) \<times> 'r"
  files_copy :: "string \<Rightarrow> string \<Rightarrow> 'r \<Rightarrow> (error + item) \<times> 'r"
  files_delete :: "string \<Rightarrow> 'r \<Rightarrow> (error + 'a) \<times> 'r"
  values_get :: "string \<Rightarrow> string \<Rightarrow> 'r \<Rightarrow> (error + cells option) \<times> 'r"
  values_clear :: "string \<Rightarrow> string \<Rightarrow> 'r \<Rightarrow> (error + 'a) \<times> 'r"
  values_update :: "string \<Rightarrow> string \<Rightarrow> cells \<Rightarrow> string \<Rightarrow> 'r \<Rightarrow> (error + 'a) \<times> 'r"
  delete_sheet :: "string \<Rightarrow> int option \<Rightarrow> 'r \<Rightarrow> (error + 'a) \<times> 'r"

subsection \<open>Methods of GoogleDriveFile\<close>

text \<open>\<open>__eq__\<close>: \<open>self.id == other.id\<close>.\<close>

definition file_eq :: "drive_file \<Rightarrow> drive_file \<Rightarrow> bool" where
  "file_eq self other = (file_id self = file_id other)"

text \<open>
  \<open>copy\<close>: the request is built and executed, and the response item is wrapped by the
  class of \<open>self\<close>.
\<close>

definition file_copy ::
  "('r, 'a) api \<Rightarrow> drive_file \<Rightarrow> string \<Rightarrow> 'r \<Rightarrow> (error + drive_file) \<times> 'r" where
  "file_copy api self file_name r =
     (case api_service api self of
        Some e \<Rightarrow> (Inl e, r)
      | None \<Rightarrow>
          (case files_copy api (file_id self) file_name r of
             (Inl e, r') \<Rightarrow> (Inl e, r')
           | (Inr file_item, r') \<Rightarrow> (from_item (cls self) file_item, r')))"

text \<open>
  \<open>delete\<close>: the body is the single expression
  \<open>self._api_service.files().delete(fileId=self.id)\<close>.  It resolves the client and builds
  the request; there is no \<open>.execute()\<close>, so no function of the API record is applied, and
  the method returns \<open>None\<close>.
\<close>

definition file_delete ::
  "('r, 'a) api \<Rightarrow> drive_file \<Rightarrow> 'r \<Rightarrow> (error + unit) \<times> 'r" where
  "file_delete api self r =
     (case api_service api self of
        Some e \<Rightarrow> (Inl e, r)
      | None \<Rightarrow> (Inr (), r))"

subsection \<open>Methods of GoogleDriveSpreadsheet\<close>

definition spreadsheet_read ::
  "('r, 'a) api \<Rightarrow> drive_file \<Rightarrow> string \<Rightarrow> 'r \<Rightarrow> (error + cells) \<times> 'r" where
  "spreadsheet_read api self range_name r =
     (case sheets_api_service api self of
        Some e \<Rightarrow> (Inl e, r)
      | None \<Rightarrow>
          (case values_get api (file_id self) range_name r of
             (Inl e, r') \<Rightarrow> (Inl e, r')
           | (Inr response, r') \<Rightarrow>
               (Inr (case response of None \<Rightarrow> [] | Some values \<Rightarrow> values), r')))"

definition spreadsheet_clear ::
  "('r, 'a) api \<Rightarrow> drive_file \<Rightarrow> string \<Rightarrow> 'r \<Rightarrow> (error + 'a) \<times> 'r" where
  "spreadsheet_clear api self range_name r =
     (case sheets_api_service api self of
        Some e \<Rightarrow> (Inl e, r)
      | None \<Rightarrow> values_clear api (file_id self) range_name r)"

definition spreadsheet_write ::
  "('r, 'a) api \<Rightarrow> drive_file \<Rightarrow> string \<Rightarrow> cells \<Rightarrow> string \<Rightarrow> 'r \<Rightarrow> (error + 'a) \<times> 'r" where
  "spreadsheet_write api self range_name data value_input_option r =
     (case sheets_api_service api self of
        Some e \<Rightarrow> (Inl e, r)
      | None \<Rightarrow> values_update api (file_id self) range_name data value_input_option r)"

text \<open>\<open>__getitem__\<close> returns what \<open>read\<close> returns.\<close>

definition spreadsheet_getitem ::
  "('r, 'a) api \<Rightarrow> drive_file \<Rightarrow> string \<Rightarrow> 'r \<Rightarrow> (error + cells) \<times> 'r" where
  "spreadsheet_getitem api self item r = spreadsheet_read api self item r"

text \<open>
  A statement that calls a method and drops what it returns: an exception still
  propagates, a result becomes \<open>None\<close>.
\<close>

definition discard :: "(error + 'b) \<times> 'r \<Rightarrow> (error + unit) \<times> 'r" where
  "discard p = (case p of (Inl e, r') \<Rightarrow> (Inl e, r') | (Inr _, r') \<Rightarrow> (Inr (), r'))"

text \<open>\<open>__setitem__\<close> calls \<open>write\<close> with the object's value input option.\<close>

definition spreadsheet_setitem ::
  "('r, 'a) api \<Rightarrow> drive_file \<Rightarrow> string \<Rightarrow> cells \<Rightarrow> 'r \<Rightarrow> (error + unit) \<times> 'r" where
  "spreadsheet_setitem api self item v r =
     discard (spreadsheet_write api self item v (set_item_value_input_option self) r)"

section \<open>The manager (manager.py)\<close>

text \<open>
  A manager holds the wrapper class it serves and the two service-account file names:
  the one of the environment variable and the one set by \<open>using\<close>.
\<close>

record manager =
  file_cls :: file_class
  default_service_account_file :: "string option"
  custom_service_account_file :: "string option"

text \<open>\<open>custom_service_account_file or default_service_account_file\<close>.\<close>

definition service_account_file :: "manager \<Rightarrow> string option" where
  "service_account_file self =
     (case custom_service_account_file self of
        None \<Rightarrow> default_service_account_file self
      | Some f \<Rightarrow> if f = [] then default_service_account_file self else Some f)"

text \<open>The assertion fails on \<open>None\<close> and on the empty string.\<close>

definition get_service_from_service_account_file ::
  "('r, 'a) api \<Rightarrow> string option \<Rightarrow> error option" where
  "get_service_from_service_account_file api f =
     (case f of
        None \<Rightarrow> Some AssertionError
      | Some p \<Rightarrow> if p = [] then Some AssertionError else build api p)"

definition get_api_service :: "('r, 'a) api \<Rightarrow> manager \<Rightarrow> error option" where
  "get_api_service api self = get_service_from_service_account_file api (service_account_file self)"

definition get_item :: "('r, 'a) api \<Rightarrow> manager \<Rightarrow> string \<Rightarrow> 'r \<Rightarrow> (error + item) \<times> 'r" where
  "get_item api self i r =
     (case get_api_service api self of
        Some e \<Rightarrow> (Inl e, r)
      | None \<Rightarrow> files_get api i r)"

text \<open>
  The body of the \<open>try\<close> block of \<open>get\<close>.  In its statement
  \<open>file_obj.set_api_service(self._get_api_service())\<close> the attribute is looked up
  first, then the argument is evaluated, then the method is called.
\<close>

definition get_body ::
  "('r, 'a) api \<Rightarrow> manager \<Rightarrow> string \<Rightarrow> 'r \<Rightarrow> (error + drive_file) \<times> 'r" where
  "get_body api self i r =
     (case get_item api self i r of
        (Inl e, r') \<Rightarrow> (Inl e, r')
      | (Inr item, r') \<Rightarrow>
          (case from_item (file_cls self) item of
             Inl e \<Rightarrow> (Inl e, r')
           | Inr file_obj \<Rightarrow>
               (case set_api_service api of
                  None \<Rightarrow> (Inl AttributeError, r')
                | Some method \<Rightarrow>
                    (case get_api_service api self of
                       Some e \<Rightarrow> (Inl e, r')
                     | None \<Rightarrow>
                         (case method file_obj of
                            Some e \<Rightarrow> (Inl e, r')
                          | None \<Rightarrow> (Inr file_obj, r'))))))"

text \<open>
  \<open>get\<close>: \<open>except googleapiclient.errors.HttpError: return None\<close> turns an HTTP error of
  the body into the result \<open>None\<close>; any other exception propagates.
\<close>

definition manager_get ::
  "('r, 'a) api \<Rightarrow> manager \<Rightarrow> string \<Rightarrow> 'r \<Rightarrow> (error + drive_file option) \<times> 'r" where
  "manager_get api self i r =
     (case get_body api self i r of
        (Inl (HttpError _), r') \<Rightarrow> (Inr None, r')
      | (Inl e, r') \<Rightarrow> (Inl e, r')
      | (Inr file_obj, r') \<Rightarrow> (Inr (Some file_obj), r'))"

subsection \<open>Keyword filters\<close>

text \<open>
  The values a keyword argument of \<open>filter\<close> can take: \<open>None\<close>, a boolean, an integer, a
  string or a Drive file object.  The keyword arguments are a dictionary in the order
  of the call, with no key twice.
\<close>

datatype qvalue = VNone | VBool bool | VInt int | VStr string | VFile drive_file

type_synonym kwargs = "(string \<times> qvalue) list"

text \<open>\<open>d[k] = v\<close>: an existing key keeps its place, a new key goes to the end.\<close>

fun dict_set :: "(string \<times> 'v) list \<Rightarrow> string \<Rightarrow> 'v \<Rightarrow> (string \<times> 'v) list" where
  "dict_set [] k v = [(k, v)]"
| "dict_set ((k', v') # kvs) k v =
     (if k' = k then (k, v) # kvs else (k', v') # dict_set kvs k v)"

text \<open>Decimal digits of a natural number, and \<open>str\<close> of an integer.\<close>

definition digit_char :: "nat \<Rightarrow> char" where
  "digit_char d = ''0123456789'' ! d"

fun digits :: "nat \<Rightarrow> string" where
  "digits n = (if n < 10 then [digit_char n] else digits (n div 10) @ [digit_char (n mod 10)])"

declare digits.simps [simp del]

definition str_int :: "int \<Rightarrow> string" where
  "str_int i = (if i < 0 then CHR ''-'' # digits (nat (- i)) else digits (nat i))"

definition str_opt :: "string option \<Rightarrow> string" where
  "str_opt s = (case s of None \<Rightarrow> ''None'' | Some t \<Rightarrow> t)"

fun class_name :: "file_class \<Rightarrow> string" where
  "class_name GoogleDriveFile = ''GoogleDriveFile''"
| "class_name GoogleDriveFolder = ''GoogleDriveFolder''"
| "class_name GoogleDriveDocument = ''GoogleDriveDocument''"
| "class_name GoogleDriveSpreadsheet = ''GoogleDriveSpreadsheet''"

text \<open>\<open>__repr__\<close> of a file, and \<open>__str__\<close>, which only the folder class overrides.\<close>

definition file_repr :: "drive_file \<Rightarrow> string" where
  "file_repr f = ''<'' @ class_name (cls f) @ '': '' @ file_id f @ '' - '' @ str_opt (name f) @ ''>''"

definition file_str :: "drive_file \<Rightarrow> string" where
  "file_str f = (if cls f = GoogleDriveFolder then str_opt (name f) else file_repr f)"

text \<open>What \<open>f"{value}"\<close> renders.\<close>

fun py_str :: "qvalue \<Rightarrow> string" where
  "py_str VNone = ''None''"
| "py_str (VBool b) = (if b then ''True'' else ''False'')"
| "py_str (VInt i) = str_int i"
| "py_str (VStr s) = s"
| "py_str (VFile f) = file_str f"

text \<open>
  \<open>re.sub('_[a-z]', lambda p: p.group(0)[-1].upper(), param)\<close>: scanning from the left,
  an underscore followed by a lower-case ASCII letter is replaced by the upper-case
  letter, and the scan goes on after the letter.
\<close>

definition lower_upper :: "(char \<times> char) list" where
  "lower_upper = zip ''abcdefghijklmnopqrstuvwxyz'' ''ABCDEFGHIJKLMNOPQRSTUVWXYZ''"

definition is_lower :: "char \<Rightarrow> bool" where
  "is_lower c = (c \<in> set ''abcdefghijklmnopqrstuvwxyz'')"

definition upper :: "char \<Rightarrow> char" where
  "upper c = (case map_of lower_upper c of None \<Rightarrow> c | Some u \<Rightarrow> u)"

fun camel_case :: "string \<Rightarrow> string" where
  "camel_case (c # d # cs) =
     (if c = CHR ''_'' \<and> is_lower d then upper d # camel_case cs
      else c # camel_case (d # cs))"
| "camel_case cs = cs"

definition quote :: char where
  "quote = CHR 0x27"

text \<open>\<open>_get_filter_folder_query\<close>: only an object has the attribute \<open>id\<close>.\<close>

fun get_filter_folder_query :: "qvalue \<Rightarrow> error + string" where
  "get_filter_folder_query (VFile f) = Inr ([quote] @ file_id f @ [quote] @ '' in parents'')"
| "get_filter_folder_query _ = Inl AttributeError"

text \<open>The body of the loop over the keyword arguments: the query of one parameter.\<close>

definition param_query :: "string \<Rightarrow> qvalue \<Rightarrow> error + string" where
  "param_query param v =
     (let param_camel_case = camel_case param in
      if param = ''folder'' then get_filter_folder_query v
      else (case v of
              VBool b \<Rightarrow> Inr (param_camel_case @ '' = '' @ py_str v)
            | _ \<Rightarrow> Inr (param_camel_case @ '' contains '' @ [quote] @ py_str v @ [quote])))"

fun params_queries :: "kwargs \<Rightarrow> error + string list" where
  "params_queries [] = Inr []"
| "params_queries ((param, v) # kvs) =
     (case param_query param v of
        Inl e \<Rightarrow> Inl e
      | Inr q \<Rightarrow>
          (case params_queries kvs of
             Inl e \<Rightarrow> Inl e
           | Inr qs \<Rightarrow> Inr (q # qs)))"

text \<open>\<open>sep.join(xs)\<close>.\<close>

fun join :: "string \<Rightarrow> string list \<Rightarrow> string" where
  "join sep [] = []"
| "join sep [x] = x"
| "join sep (x # y # ys) = x @ sep @ join sep (y # ys)"

text \<open>
  The first part of \<open>filter\<close>: the class's MIME type, when it is truthy, is stored under
  \<open>mime_type\<close>, and the queries of the parameters are joined.
\<close>

definition with_mime_type :: "mime_types \<Rightarrow> manager \<Rightarrow> kwargs \<Rightarrow> kwargs" where
  "with_mime_type M self kw =
     (case class_mime_type M (file_cls self) of
        None \<Rightarrow> kw
      | Some m \<Rightarrow> if m = [] then kw else dict_set kw ''mime_type'' (VStr m))"

definition filter_query :: "mime_types \<Rightarrow> manager \<Rightarrow> kwargs \<Rightarrow> error + string" where
  "filter_query M self kw =
     (case params_queries (with_mime_type M self kw) of
        Inl e \<Rightarrow> Inl e
      | Inr qs \<Rightarrow> Inr (join '' and '' qs))"

text \<open>The loop that wraps the items of the response; it stops at the first exception.\<close>

fun from_items :: "file_class \<Rightarrow> item list \<Rightarrow> error + drive_file list" where
  "from_items c [] = Inr []"
| "from_items c (file_item # items) =
     (case from_item c file_item of
        Inl e \<Rightarrow> Inl e
      | Inr f \<Rightarrow>
          (case from_items c items of
             Inl e \<Rightarrow> Inl e
           | Inr fs \<Rightarrow> Inr (f # fs)))"

text \<open>
  The second part of \<open>filter\<close>: the list request with the query \<open>q\<close> is executed and
  the items under \<open>files\<close> (none when the key is missing) are wrapped.
\<close>

definition filter_list ::
  "('r, 'a) api \<Rightarrow> manager \<Rightarrow> string \<Rightarrow> 'r \<Rightarrow> (error + drive_file list) \<times> 'r" where
  "filter_list api self q r =
     (case get_api_service api self of
        Some e \<Rightarrow> (Inl e, r)
      | None \<Rightarrow>
          (case files_list api q r of
             (Inl e, r') \<Rightarrow> (Inl e, r')
           | (Inr response, r') \<Rightarrow>
               (from_items (file_cls self)
                  (case response of None \<Rightarrow> [] | Some files_items \<Rightarrow> files_items), r')))"

definition manager_filter ::
  "('r, 'a) api \<Rightarrow> mime_types \<Rightarrow> manager \<Rightarrow> kwargs \<Rightarrow> 'r \<Rightarrow> (error + drive_file list) \<times> 'r" where
  "manager_filter api M self kw r =
     (case filter_query M self kw of
        Inl e \<Rightarrow> (Inl e, r)
      | Inr q \<Rightarrow> filter_list api self q r)"

subsection \<open>The query in the words of the specification\<close>

text \<open>
  A snake-case key is a list of words joined by underscores; its camel-case form is the
  first word followed by the other words with their first letter in upper case.
\<close>

definition snake :: "string list \<Rightarrow> string" where
  "snake ws = join ''_'' ws"

fun capitalize :: "string \<Rightarrow> string" where
  "capitalize [] = []"
| "capitalize (c # cs) = upper c # cs"

fun camel :: "string list \<Rightarrow> string" where
  "camel [] = []"
| "camel (w # ws) = w @ concat (map capitalize ws)"

text \<open>
  The words of a snake-case key: no word is empty or holds an underscore, and every word
  after the first starts with a lower-case letter.
\<close>

fun later_words :: "string list \<Rightarrow> bool" where
  "later_words [] = True"
| "later_words (w # ws) =
     (w \<noteq> [] \<and> CHR ''_'' \<notin> set w \<and> is_lower (hd w) \<and> later_words ws)"

fun snake_words :: "string list \<Rightarrow> bool" where
  "snake_words [] = False"
| "snake_words (w # ws) = (w \<noteq> [] \<and> CHR ''_'' \<notin> set w \<and> later_words ws)"

text \<open>The clause of one keyword argument, and the whole query.\<close>

fun spec_clause :: "string \<times> qvalue \<Rightarrow> string" where
  "spec_clause (k, VFile f) =
     (if k = ''folder'' then [quote] @ file_id f @ [quote] @ '' in parents''
      else camel_case k @ '' contains '' @ [quote] @ file_str f @ [quote])"
| "spec_clause (k, VBool b) = camel_case k @ '' = '' @ (if b then ''True'' else ''False'')"
| "spec_clause (k, v) = camel_case k @ '' contains '' @ [quote] @ py_str v @ [quote]"

definition spec_kwargs :: "mime_types \<Rightarrow> manager \<Rightarrow> kwargs \<Rightarrow> kwargs" where
  "spec_kwargs M self kw =
     (case class_mime_type M (file_cls self) of
        None \<Rightarrow> kw
      | Some m \<Rightarrow> dict_set kw ''mime_type'' (VStr m))"

definition spec_query :: "mime_types \<Rightarrow> manager \<Rightarrow> kwargs \<Rightarrow> string" where
  "spec_query M self kw = join '' and '' (map spec_clause (spec_kwargs M self kw))"

text \<open>A folder argument is an object, and the MIME types of the table are not empty.\<close>

definition folder_is_file :: "kwargs \<Rightarrow> bool" where
  "folder_is_file kw = list_all (\<lambda>(k, v). k \<noteq> ''folder'' \<or> (case v of VFile f \<Rightarrow> True | _ \<Rightarrow> False)) kw"

definition mime_types_ok :: "mime_types \<Rightarrow> bool" where
  "mime_types_ok M = (mime_folder M \<noteq> [] \<and> mime_document M \<noteq> [] \<and> mime_spreadsheet M \<noteq> [])"

section \<open>Sheets (sheet.py)\<close>

text \<open>
  A colour has three channels and grid properties two counts.  The operations below only
  store the channels and hand them back, so a channel is modelled as a number of type
  \<open>real\<close>.
\<close>

record color =
  red :: real
  green :: real
  blue :: real

text \<open>\<open>Color(red=0, green=0, blue=0)\<close>.\<close>

definition new_color :: "real option \<Rightarrow> real option \<Rightarrow> real option \<Rightarrow> color" where
  "new_color r g b =
     \<lparr>red = (case r of None \<Rightarrow> 0 | Some x \<Rightarrow> x),
      green = (case g of None \<Rightarrow> 0 | Some x \<Rightarrow> x),
      blue = (case b of None \<Rightarrow> 0 | Some x \<Rightarrow> x)\<rparr>"

definition color_to_item :: "color \<Rightarrow> string \<rightharpoonup> real" where
  "color_to_item self = [''green'' \<mapsto> green self, ''blue'' \<mapsto> blue self, ''red'' \<mapsto> red self]"

text \<open>
  Modelled from the spec: \<open>Color.from_item\<close> is inherited from \<open>FromItemable\<close>
  (\<open>entities/from_itemable.py\<close>), which is not among the sources.  The specification
  says that a colour is "serializable to/from the API's representation": the item's
  entries \<open>red\<close>, \<open>green\<close> and \<open>blue\<close> become the arguments of the constructor, whose
  default for a missing channel is 0.
\<close>

definition color_from_item :: "(string \<rightharpoonup> real) \<Rightarrow> color" where
  "color_from_item item = new_color (item ''red'') (item ''green'') (item ''blue'')"

record grid_properties =
  row_count :: int
  column_count :: int

definition grid_to_item :: "grid_properties \<Rightarrow> string \<rightharpoonup> int" where
  "grid_to_item self = [''rowCount'' \<mapsto> row_count self, ''columnCount'' \<mapsto> column_count self]"

text \<open>\<open>GridProperties.from_item\<close>: \<open>cls(item['rowCount'], item['columnCount'])\<close>.\<close>

definition grid_from_item :: "(string \<rightharpoonup> int) \<Rightarrow> error + grid_properties" where
  "grid_from_item item =
     (case item ''rowCount'' of
        None \<Rightarrow> Inl (KeyError ''rowCount'')
      | Some rc \<Rightarrow>
          (case item ''columnCount'' of
             None \<Rightarrow> Inl (KeyError ''columnCount'')
           | Some cc \<Rightarrow> Inr \<lparr>row_count = rc, column_count = cc\<rparr>))"

text \<open>
  A sheet.  \<open>spreadsheet\<close> is the back-reference to the owning spreadsheet, \<open>None\<close> until
  one is assigned; the constructor leaves it and the value input option at the values
  of the class attributes.
\<close>

record sheet =
  sheet_id :: "int option"
  index :: "int option"
  title :: "string option"
  tab_color :: "color option"
  sheet_grid_properties :: "grid_properties option"
  spreadsheet :: "drive_file option"
  sheet_set_item_value_input_option :: string

definition new_sheet ::
  "int option \<Rightarrow> int option \<Rightarrow> string option \<Rightarrow> color option \<Rightarrow> grid_properties option \<Rightarrow> sheet" where
  "new_sheet i ix t tc gp =
     \<lparr>sheet_id = i, index = ix, title = t, tab_color = tc, sheet_grid_properties = gp,
      spreadsheet = None, sheet_set_item_value_input_option = ''RAW''\<rparr>"

definition assign_spreadsheet :: "sheet \<Rightarrow> drive_file option \<Rightarrow> sheet" where
  "assign_spreadsheet self s = self\<lparr>spreadsheet := s\<rparr>"

text \<open>\<open>f"{self.title}!{sheet_range_name}"\<close>.\<close>

definition get_spreadsheet_range_name :: "sheet \<Rightarrow> string \<Rightarrow> string" where
  "get_spreadsheet_range_name self sheet_range_name = str_opt (title self) @ ''!'' @ sheet_range_name"

text \<open>
  \<open>read\<close>, \<open>write\<close> and \<open>clear\<close> start with \<open>assert self.spreadsheet\<close>; an object of the
  spreadsheet class is truthy.
\<close>

definition sheet_read ::
  "('r, 'a) api \<Rightarrow> sheet \<Rightarrow> string \<Rightarrow> 'r \<Rightarrow> (error + cells) \<times> 'r" where
  "sheet_read api self range_name r =
     (case spreadsheet self of
        None \<Rightarrow> (Inl AssertionError, r)
      | Some s \<Rightarrow> spreadsheet_read api s (get_spreadsheet_range_name self range_name) r)"

definition sheet_write ::
  "('r, 'a) api \<Rightarrow> sheet \<Rightarrow> string \<Rightarrow> cells \<Rightarrow> string \<Rightarrow> 'r \<Rightarrow> (error + 'a) \<times> 'r" where
  "sheet_write api self range_name data value_input_option r =
     (case spreadsheet self of
        None \<Rightarrow> (Inl AssertionError, r)
      | Some s \<Rightarrow>
          spreadsheet_write api s (get_spreadsheet_range_name self range_name) data
            value_input_option r)"

definition sheet_clear ::
  "('r, 'a) api \<Rightarrow> sheet \<Rightarrow> string \<Rightarrow> 'r \<Rightarrow> (error + 'a) \<times> 'r" where
  "sheet_clear api self range_name r =
     (case spreadsheet self of
        None \<Rightarrow> (Inl AssertionError, r)
      | Some s \<Rightarrow> spreadsheet_clear api s (get_spreadsheet_range_name self range_name) r)"

text \<open>
  \<open>delete\<close> returns the response and the sheet as the call leaves it: the back-reference
  is cleared only after the request has been executed without an exception.
\<close>

definition sheet_delete ::
  "('r, 'a) api \<Rightarrow> sheet \<Rightarrow> 'r \<Rightarrow> ((error + 'a) \<times> sheet) \<times> 'r" where
  "sheet_delete api self r =
     (case spreadsheet self of
        None \<Rightarrow> ((Inl AssertionError, self), r)
      | Some s \<Rightarrow>
          (case sheets_api_service api s of
             Some e \<Rightarrow> ((Inl e, self), r)
           | None \<Rightarrow>
               (case delete_sheet api (file_id s) (sheet_id self) r of
                  (Inl e, r') \<Rightarrow> ((Inl e, self), r')
                | (Inr response, r') \<Rightarrow> ((Inr response, self\<lparr>spreadsheet := None\<rparr>), r'))))"

definition sheet_getitem ::
  "('r, 'a) api \<Rightarrow> sheet \<Rightarrow> string \<Rightarrow> 'r \<Rightarrow> (error + cells) \<times> 'r" where
  "sheet_getitem api self item r = sheet_read api self item r"

definition sheet_setitem ::
  "('r, 'a) api \<Rightarrow> sheet \<Rightarrow> string \<Rightarrow> cells \<Rightarrow> 'r \<Rightarrow> (error + unit) \<times> 'r" where
  "sheet_setitem api self item v r =
     discard (sheet_write api self item v (sheet_set_item_value_input_option self) r)"

text \<open>
  \<open>__eq__\<close>: both back-references are asserted, then the spreadsheets are compared (by
  \<open>GoogleDriveFile.__eq__\<close>) and the sheet ids.
\<close>

definition sheet_eq :: "sheet \<Rightarrow> sheet \<Rightarrow> error + bool" where
  "sheet_eq self other =
     (case spreadsheet self of
        None \<Rightarrow> Inl AssertionError
      | Some s \<Rightarrow>
          (case spreadsheet other of
             None \<Rightarrow> Inl AssertionError
           | Some s' \<Rightarrow> Inr (file_eq s s' \<and> sheet_id self = sheet_id other)))"

section \<open>A recording client\<close>

text \<open>
  A client for the examples below.  Its remote state is the list of the requests executed
  so far.  It finds every file but the one with id \<open>missing\<close>, for which it answers with
  the HTTP error 404; for the id \<open>bare\<close> it answers with an item that has no \<open>id\<close>.
  Its file objects have no attribute \<open>set_api_service\<close>.
\<close>

datatype call =
    FilesGet string
  | FilesList string
  | FilesCopy string string
  | FilesDelete string
  | ValuesGet string string
  | ValuesClear string string
  | ValuesUpdate string string cells string
  | DeleteSheet string "int option"

definition recording_api :: "(call list, string) api" where
  "recording_api =
     \<lparr>build = (\<lambda>p. None),
      api_service = (\<lambda>f. None),
      sheets_api_service = (\<lambda>f. None),
      set_api_service = None,
      files_get = (\<lambda>i r.
        (if i = ''missing'' then Inl (HttpError 404)
         else if i = ''bare'' then Inr [''name'' \<mapsto> ''notes'']
         else Inr [''id'' \<mapsto> i, ''name'' \<mapsto> ''notes''], r @ [FilesGet i])),
      files_list = (\<lambda>q r. (Inr (Some [[''id'' \<mapsto> ''d1'', ''name'' \<mapsto> ''notes'']]), r @ [FilesList q])),
      files_copy = (\<lambda>i n r. (Inr [''id'' \<mapsto> ''c1'', ''name'' \<mapsto> n], r @ [FilesCopy i n])),
      files_delete = (\<lambda>i r. (Inr ''deleted'', r @ [FilesDelete i])),
      values_get = (\<lambda>i rng r. (Inr (Some [[''a'', ''b'']]), r @ [ValuesGet i rng])),
      values_clear = (\<lambda>i rng r. (Inr ''cleared'', r @ [ValuesClear i rng])),
      values_update = (\<lambda>i rng d opt r. (Inr ''updated'', r @ [ValuesUpdate i rng d opt])),
      delete_sheet = (\<lambda>i s r. (Inr ''sheet deleted'', r @ [DeleteSheet i s]))\<rparr>"

definition docs :: manager where
  "docs = \<lparr>file_cls = GoogleDriveDocument, default_service_account_file = Some ''key.json'',
           custom_service_account_file = None\<rparr>"

definition book :: drive_file where
  "book = new_file GoogleDriveSpreadsheet ''B1'' (Some ''Budget'') None"

definition page :: sheet where
  "page = assign_spreadsheet (new_sheet (Some 0) (Some 0) (Some ''Sheet1'') None None) (Some book)"

definition orphan :: sheet where
  "orphan = new_sheet (Some 7) (Some 1) (Some ''Loose'') None None"

definition other_book :: drive_file where
  "other_book = new_file GoogleDriveSpreadsheet ''B2'' (Some ''Budget'') None"

definition other_page :: sheet where
  "other_page = assign_spreadsheet (new_sheet (Some 0) (Some 0) (Some ''Sheet1'') None None) (Some other_book)"

section \<open>The factory picks the class of the MIME type\<close>

lemma get_file_class_matching:
  assumes "distinct [mime_folder M, mime_document M, mime_spreadsheet M]"
  shows "get_file_class M mt = matching_class M mt"
  using assms
  by (cases mt) (auto simp: get_file_class_def matching_class_def file_classes_def default_class_def)

lemma factory_from_item_no_id:
  "item ''id'' = None \<Longrightarrow> factory_from_item M item = Inl (KeyError ''id'')"
  by (simp add: factory_from_item_def from_item_def)

text \<open>
  Claim C1.  For a raw item (which carries an \<open>id\<close>) and a MIME table whose folder,
  document and spreadsheet types are different strings, the factory returns an object of
  the folder class for the folder MIME type, of the document class for the document MIME
  type, of the spreadsheet class for the spreadsheet MIME type, and of the default class
  \<open>GoogleDriveFile\<close> for any other or missing MIME type; the object carries the item's
  id, name and MIME type.
\<close>

theorem factory_from_item_class:
  assumes "distinct [mime_folder M, mime_document M, mime_spreadsheet M]"
    and "item ''id'' = Some i"
  shows "factory_from_item M item =
           Inr (new_file (matching_class M (item ''mimeType'')) i (item ''name'') (item ''mimeType''))"
  using assms(2) get_file_class_matching [OF assms(1)]
  by (simp add: factory_from_item_def from_item_def)

theorem factory_from_item_class_witness:
  "factory_from_item google_mime_types
     [''id'' \<mapsto> ''f1'', ''mimeType'' \<mapsto> ''application/vnd.google-apps.folder'']
   = Inr (new_file GoogleDriveFolder ''f1'' None
            (Some ''application/vnd.google-apps.folder''))
   \<and> factory_from_item google_mime_types [''id'' \<mapsto> ''f2'', ''name'' \<mapsto> ''a.txt'']
   = Inr (new_file GoogleDriveFile ''f2'' (Some ''a.txt'') None)"
  using factory_from_item_class [of google_mime_types
          "[''id'' \<mapsto> ''f1'', ''mimeType'' \<mapsto> ''application/vnd.google-apps.folder'']" "''f1''"]
        factory_from_item_class [of google_mime_types
          "[''id'' \<mapsto> ''f2'', ''name'' \<mapsto> ''a.txt'']" "''f2''"]
  by (simp add: google_mime_types_def matching_class_def new_file_def)

section \<open>The query of a keyword filter\<close>

lemma camel_case_word: "CHR ''_'' \<notin> set w \<Longrightarrow> camel_case (w @ rest) = w @ camel_case rest"
proof (induction w)
  case Nil then show ?case by simp
next
  case (Cons c w)
  then show ?case
    by (cases "w @ rest") auto
qed

lemma camel_case_later:
  "later_words ws \<Longrightarrow> camel_case (concat (map (\<lambda>w. CHR ''_'' # w) ws)) = concat (map capitalize ws)"
proof (induction ws)
  case Nil then show ?case by simp
next
  case (Cons w ws)
  then obtain c cs where w: "w = c # cs" by (cases w) auto
  with Cons show ?case by (simp add: camel_case_word)
qed

lemma join_snake: "join ''_'' (w # ws) = w @ concat (map (\<lambda>w. CHR ''_'' # w) ws)"
  by (induction ws arbitrary: w) auto

lemma camel_case_snake: "snake_words ws \<Longrightarrow> camel_case (snake ws) = camel ws"
  by (cases ws) (simp_all add: snake_def join_snake camel_case_word camel_case_later)

lemma param_query_spec:
  "k \<noteq> ''folder'' \<or> (case v of VFile f \<Rightarrow> True | _ \<Rightarrow> False) \<Longrightarrow>
   param_query k v = Inr (spec_clause (k, v))"
  by (cases v) (auto simp: param_query_def file_str_def)

lemma params_queries_spec:
  "folder_is_file kw \<Longrightarrow> params_queries kw = Inr (map spec_clause kw)"
proof (induction kw)
  case Nil then show ?case by simp
next
  case (Cons kv kw)
  obtain k v where kv: "kv = (k, v)" by (cases kv)
  with Cons show ?case
    by (simp add: folder_is_file_def param_query_spec)
qed

lemma folder_is_file_dict_set:
  "folder_is_file kw \<Longrightarrow> folder_is_file (dict_set kw ''mime_type'' (VStr m))"
  by (induction kw) (auto simp: folder_is_file_def)

lemma dict_set_member: "(k, v) \<in> set (dict_set kw k v)"
  by (induction kw) auto

lemma with_mime_type_spec:
  "mime_types_ok M \<Longrightarrow> with_mime_type M self kw = spec_kwargs M self kw"
  by (cases "file_cls self") (simp_all add: with_mime_type_def spec_kwargs_def mime_types_ok_def)

lemma folder_is_file_spec_kwargs:
  "folder_is_file kw \<Longrightarrow> folder_is_file (spec_kwargs M self kw)"
  by (simp add: spec_kwargs_def folder_is_file_dict_set split: option.splits)

lemma mime_clause:
  "spec_clause (''mime_type'', VStr m) = ''mimeType contains '' @ [quote] @ m @ [quote]"
  by (simp add: is_lower_def upper_def lower_upper_def)

text \<open>An integer is no boolean, a string is no folder, and only lower-case letters are raised.\<close>

lemma param_query_examples:
  "param_query ''size'' (VInt 42) = Inr (''size contains '' @ [quote] @ ''42'' @ [quote])
   \<and> param_query ''starred'' (VBool True) = Inr ''starred = True''
   \<and> param_query ''folder'' (VStr ''F1'') = Inl AttributeError
   \<and> param_query ''owner'' VNone = Inr (''owner contains '' @ [quote] @ ''None'' @ [quote])
   \<and> camel_case ''a__b_1_c_'' = ''a_B_1C_''"
  by (simp add: param_query_def str_int_def digits.simps digit_char_def is_lower_def upper_def
        lower_upper_def)

text \<open>
  Claim C2.  For keyword arguments whose \<open>folder\<close> argument (if any) is a file object, and
  a MIME table without empty entries, \<open>filter\<close> sends the query of the specification: the
  clauses of the arguments joined with \<open>and\<close>, where a \<open>folder\<close> argument gives
  \<open>'<folder.id>' in parents\<close>, a boolean gives \<open><camelKey> = <value>\<close> and any other
  value gives \<open><camelKey> contains '<value>'\<close>.  When the manager's class has a MIME
  type, the clause \<open>mimeType contains '<type>'\<close> is among them.  The key of a clause is
  the camel-case form of the snake-case key.
\<close>

theorem filter_builds_query:
  assumes "mime_types_ok M" and "folder_is_file kw"
  shows "filter_query M self kw = Inr (spec_query M self kw)
       \<and> manager_filter api M self kw r = filter_list api self (spec_query M self kw) r
       \<and> (\<forall>m. class_mime_type M (file_cls self) = Some m \<longrightarrow>
              ''mimeType contains '' @ [quote] @ m @ [quote] \<in> set (map spec_clause (spec_kwargs M self kw)))
       \<and> (\<forall>ws. snake_words ws \<longrightarrow> camel_case (snake ws) = camel ws)"
proof -
  have q: "filter_query M self kw = Inr (spec_query M self kw)"
    using assms
    by (simp add: filter_query_def spec_query_def with_mime_type_spec
                  params_queries_spec folder_is_file_spec_kwargs)
  have f: "manager_filter api M self kw r = filter_list api self (spec_query M self kw) r"
    by (simp add: manager_filter_def q)
  have m: "''mimeType contains '' @ [quote] @ m @ [quote] \<in> set (map spec_clause (spec_kwargs M self kw))"
    if "class_mime_type M (file_cls self) = Some m" for m
  proof -
    have "(''mime_type'', VStr m) \<in> set (spec_kwargs M self kw)"
      using that by (simp add: spec_kwargs_def dict_set_member)
    then have "spec_clause (''mime_type'', VStr m) \<in> spec_clause ` set (spec_kwargs M self kw)"
      by (rule imageI)
    then show ?thesis by (simp only: mime_clause set_map)
  qed
  from q f m camel_case_snake show ?thesis by blast
qed

theorem filter_builds_query_witness:
  "filter_query google_mime_types docs
     [(''name'', VStr ''report''), (''folder'', VFile (new_file GoogleDriveFolder ''F1'' None None)),
      (''trashed'', VBool False), (''full_text'', VStr ''tax'')]
   = Inr (''name contains '' @ [quote] @ ''report'' @ [quote] @ '' and '' @
          [quote] @ ''F1'' @ [quote] @ '' in parents and trashed = False and fullText contains '' @
          [quote] @ ''tax'' @ [quote] @ '' and mimeType contains '' @ [quote] @ 
          ''application/vnd.google-apps.document'' @ [quote])
   \<and> camel_case ''some_cool_parameter'' = ''someCoolParameter''"
proof -
  let ?kw = "[(''name'', VStr ''report''), (''folder'', VFile (new_file GoogleDriveFolder ''F1'' None None)),
      (''trashed'', VBool False), (''full_text'', VStr ''tax'')]"
  have ok: "mime_types_ok google_mime_types"
    by (simp add: mime_types_ok_def google_mime_types_def)
  have ff: "folder_is_file ?kw"
    by (simp add: folder_is_file_def)
  have sw: "snake_words [''some'', ''cool'', ''parameter'']"
    by (simp add: is_lower_def)
  from filter_builds_query [OF ok ff, of docs recording_api "[]"] sw
  have "filter_query google_mime_types docs ?kw = Inr (spec_query google_mime_types docs ?kw)"
    and "camel_case (snake [''some'', ''cool'', ''parameter'']) = camel [''some'', ''cool'', ''parameter'']"
    by blast+
  then show ?thesis
    by (simp add: spec_query_def spec_kwargs_def docs_def google_mime_types_def new_file_def
                  snake_def is_lower_def upper_def lower_upper_def)
qed

section \<open>Sheet operations need the owning spreadsheet\<close>

text \<open>
  Claim C3.  On a sheet whose spreadsheet reference is \<open>None\<close>, \<open>read\<close>, \<open>write\<close> and
  \<open>clear\<close> raise \<open>AssertionError\<close> and leave the remote state as it was, whatever the
  client: no request is executed.  On a sheet with a spreadsheet the assertion passes:
  an \<open>AssertionError\<close> can only come out of the spreadsheet's own operation.
\<close>

theorem sheet_requires_spreadsheet:
  "(spreadsheet sh = None \<longrightarrow>
      sheet_read api sh rng r = (Inl AssertionError, r)
    \<and> sheet_write api sh rng d opt r = (Inl AssertionError, r)
    \<and> sheet_clear api sh rng r = (Inl AssertionError, r))
   \<and> (\<forall>s. spreadsheet sh = Some s \<longrightarrow>
      (fst (sheet_read api sh rng r) = Inl AssertionError \<longrightarrow>
         fst (spreadsheet_read api s (get_spreadsheet_range_name sh rng) r) = Inl AssertionError)
    \<and> (fst (sheet_write api sh rng d opt r) = Inl AssertionError \<longrightarrow>
         fst (spreadsheet_write api s (get_spreadsheet_range_name sh rng) d opt r) = Inl AssertionError)
    \<and> (fst (sheet_clear api sh rng r) = Inl AssertionError \<longrightarrow>
         fst (spreadsheet_clear api s (get_spreadsheet_range_name sh rng) r) = Inl AssertionError))"
  by (simp add: sheet_read_def sheet_write_def sheet_clear_def)

theorem sheet_requires_spreadsheet_witness:
  "spreadsheet orphan = None
   \<and> sheet_read recording_api orphan ''A1:B2'' [] = (Inl AssertionError, [])
   \<and> sheet_write recording_api orphan ''A1:B2'' [[''x'']] ''RAW'' [] = (Inl AssertionError, [])
   \<and> sheet_clear recording_api orphan ''A1:B2'' [] = (Inl AssertionError, [])
   \<and> spreadsheet page = Some book
   \<and> sheet_read recording_api page ''A1:B2'' [] = (Inr [[''a'', ''b'']], [ValuesGet ''B1'' ''Sheet1!A1:B2''])"
proof -
  have n: "spreadsheet orphan = None"
    by (simp add: orphan_def new_sheet_def)
  have p: "spreadsheet page = Some book"
    by (simp add: page_def assign_spreadsheet_def)
  have "sheet_read recording_api page ''A1:B2'' [] = (Inr [[''a'', ''b'']], [ValuesGet ''B1'' ''Sheet1!A1:B2''])"
    by (simp add: sheet_read_def spreadsheet_read_def recording_api_def page_def book_def
          assign_spreadsheet_def new_sheet_def new_file_def get_spreadsheet_range_name_def str_opt_def)
  with n p sheet_requires_spreadsheet [of orphan recording_api "''A1:B2''" "[]" "[[''x'']]" "''RAW''"]
  show ?thesis by simp
qed

section \<open>A sheet delegates to its spreadsheet\<close>

text \<open>
  Claim C6.  On a sheet with an owning spreadsheet, \<open>read\<close>, \<open>write\<close> and \<open>clear\<close> return
  what the spreadsheet's \<open>read\<close>, \<open>write\<close> and \<open>clear\<close> return for the range
  \<open><title>!<range>\<close>, with the same effect on the remote state.
\<close>

theorem sheet_delegates:
  assumes "spreadsheet sh = Some s"
  shows "sheet_read api sh rng r = spreadsheet_read api s (str_opt (title sh) @ ''!'' @ rng) r
       \<and> sheet_write api sh rng d opt r = spreadsheet_write api s (str_opt (title sh) @ ''!'' @ rng) d opt r
       \<and> sheet_clear api sh rng r = spreadsheet_clear api s (str_opt (title sh) @ ''!'' @ rng) r"
  using assms
  by (simp add: sheet_read_def sheet_write_def sheet_clear_def get_spreadsheet_range_name_def)

theorem sheet_delegates_witness:
  "sheet_read recording_api page ''A1'' [] = spreadsheet_read recording_api book ''Sheet1!A1'' []
   \<and> sheet_write recording_api page ''A1'' [[''x'']] ''USER_ENTERED'' []
       = (Inr ''updated'', [ValuesUpdate ''B1'' ''Sheet1!A1'' [[''x'']] ''USER_ENTERED''])
   \<and> sheet_clear recording_api page ''A1'' [] = (Inr ''cleared'', [ValuesClear ''B1'' ''Sheet1!A1''])"
proof -
  have p: "spreadsheet page = Some book"
    by (simp add: page_def assign_spreadsheet_def)
  have t: "str_opt (title page) = ''Sheet1''"
    by (simp add: page_def assign_spreadsheet_def new_sheet_def str_opt_def)
  from sheet_delegates [OF p, of recording_api "''A1''" "[]" "[[''x'']]" "''USER_ENTERED''"]
  show ?thesis
    by (simp add: t spreadsheet_write_def spreadsheet_clear_def recording_api_def book_def new_file_def)
qed

section \<open>Subscripts\<close>

text \<open>
  Claim C9.  \<open>s[r]\<close> returns what \<open>s.read(r)\<close> returns, and \<open>s[r] = v\<close> does what
  \<open>s.write(r, v, s.set_item_value_input_option)\<close> does, dropping its result; the option is
  \<open>"RAW"\<close> on a new object.  The same holds for a sheet.
\<close>

theorem subscripts_read_write:
  "spreadsheet_getitem api s rng r = spreadsheet_read api s rng r
   \<and> spreadsheet_setitem api s rng v r
       = discard (spreadsheet_write api s rng v (set_item_value_input_option s) r)
   \<and> set_item_value_input_option (new_file c i n m) = ''RAW''
   \<and> sheet_getitem api sh cell r = sheet_read api sh cell r
   \<and> sheet_setitem api sh cell v r
       = discard (sheet_write api sh cell v (sheet_set_item_value_input_option sh) r)
   \<and> sheet_set_item_value_input_option (new_sheet si ix t tc gp) = ''RAW''"
  by (simp add: spreadsheet_getitem_def spreadsheet_setitem_def sheet_getitem_def
        sheet_setitem_def new_file_def new_sheet_def)

theorem subscripts_read_write_witness:
  "spreadsheet_setitem recording_api book ''Sheet1!A1'' [[''x'']] []
     = (Inr (), [ValuesUpdate ''B1'' ''Sheet1!A1'' [[''x'']] ''RAW''])
   \<and> sheet_setitem recording_api page ''A1'' [[''x'']] []
     = (Inr (), [ValuesUpdate ''B1'' ''Sheet1!A1'' [[''x'']] ''RAW''])"
proof -
  note th = subscripts_read_write [where api = recording_api and s = book and sh = page
          and rng = "''Sheet1!A1''" and cell = "''A1''" and r = "[]" and v = "[[''x'']]"]
  have a: "spreadsheet_setitem recording_api book ''Sheet1!A1'' [[''x'']] []
     = discard (spreadsheet_write recording_api book ''Sheet1!A1'' [[''x'']]
         (set_item_value_input_option book) [])"
    using th by blast
  have b: "sheet_setitem recording_api page ''A1'' [[''x'']] []
     = discard (sheet_write recording_api page ''A1'' [[''x'']]
         (sheet_set_item_value_input_option page) [])"
    using th by blast
  have a': "discard (spreadsheet_write recording_api book ''Sheet1!A1'' [[''x'']]
         (set_item_value_input_option book) [])
     = (Inr (), [ValuesUpdate ''B1'' ''Sheet1!A1'' [[''x'']] ''RAW''])"
    by (simp add: discard_def spreadsheet_write_def recording_api_def book_def new_file_def)
  have b': "discard (sheet_write recording_api page ''A1'' [[''x'']]
         (sheet_set_item_value_input_option page) [])
     = (Inr (), [ValuesUpdate ''B1'' ''Sheet1!A1'' [[''x'']] ''RAW''])"
    by (simp add: discard_def spreadsheet_write_def sheet_write_def recording_api_def book_def
          page_def assign_spreadsheet_def new_sheet_def new_file_def
          get_spreadsheet_range_name_def str_opt_def)
  show ?thesis
    by (simp only: a a' b b')
qed

section \<open>A deleted sheet\<close>

text \<open>
  Claim C10.  When \<open>delete\<close> returns a response, the sheet's spreadsheet reference is
  \<open>None\<close> afterwards, and every later \<open>read\<close>, \<open>write\<close>, \<open>clear\<close>, \<open>delete\<close> and
  comparison (on either side) of that sheet raises \<open>AssertionError\<close> without executing a
  request.
\<close>

theorem deleted_sheet_fails_fast:
  assumes "sheet_delete api sh r = ((Inr response, sh'), r')"
  shows "spreadsheet sh' = None
       \<and> sheet_read api2 sh' rng r2 = (Inl AssertionError, r2)
       \<and> sheet_write api2 sh' rng d opt r2 = (Inl AssertionError, r2)
       \<and> sheet_clear api2 sh' rng r2 = (Inl AssertionError, r2)
       \<and> sheet_delete api2 sh' r2 = ((Inl AssertionError, sh'), r2)
       \<and> sheet_eq sh' other = Inl AssertionError
       \<and> sheet_eq other sh' = Inl AssertionError"
proof -
  from assms have "spreadsheet sh' = None"
    by (auto simp: sheet_delete_def split: option.splits prod.splits sum.splits)
  then show ?thesis
    by (simp add: sheet_read_def sheet_write_def sheet_clear_def sheet_delete_def sheet_eq_def
          split: option.splits)
qed

theorem deleted_sheet_fails_fast_witness:
  "sheet_delete recording_api page [] 
     = ((Inr ''sheet deleted'', page\<lparr>spreadsheet := None\<rparr>), [DeleteSheet ''B1'' (Some 0)])
   \<and> sheet_read recording_api (page\<lparr>spreadsheet := None\<rparr>) ''A1'' [DeleteSheet ''B1'' (Some 0)]
     = (Inl AssertionError, [DeleteSheet ''B1'' (Some 0)])
   \<and> sheet_eq (page\<lparr>spreadsheet := None\<rparr>) page = Inl AssertionError
   \<and> sheet_eq page (page\<lparr>spreadsheet := None\<rparr>) = Inl AssertionError"
proof -
  have d: "sheet_delete recording_api page [] 
     = ((Inr ''sheet deleted'', page\<lparr>spreadsheet := None\<rparr>), [DeleteSheet ''B1'' (Some 0)])"
    by (simp add: sheet_delete_def recording_api_def page_def book_def assign_spreadsheet_def
          new_sheet_def new_file_def)
  from d deleted_sheet_fails_fast [OF d, of recording_api "''A1''" "[DeleteSheet ''B1'' (Some 0)]" _ _ page]
  show ?thesis by simp
qed

section \<open>Equality\<close>

text \<open>
  Two sheets with the same sheet id in two different spreadsheets are not equal: the
  first sheet of every spreadsheet has the sheet id 0.
\<close>

theorem sheet_eq_same_id_counterexample:
  "sheet_id page = sheet_id other_page \<and> sheet_eq page other_page = Inr False"
  by (simp add: sheet_eq_def file_eq_def page_def other_page_def book_def other_book_def
        assign_spreadsheet_def new_sheet_def new_file_def)

text \<open>
  Claim C5, amended.  Two files are equal exactly when their ids are equal, whatever
  their classes, names and MIME types.  Two sheets that both have a spreadsheet are equal
  exactly when the ids of their spreadsheets are equal and their sheet ids are equal; when
  one of them has no spreadsheet, the comparison raises \<open>AssertionError\<close>.
\<close>

theorem equality_by_remote_id:
  "file_eq a b = (file_id a = file_id b)
   \<and> file_eq (new_file c i n m) (new_file c' i' n' m') = (i = i')
   \<and> (\<forall>s s'. spreadsheet x = Some s \<and> spreadsheet y = Some s' \<longrightarrow>
         sheet_eq x y = Inr (file_id s = file_id s' \<and> sheet_id x = sheet_id y))
   \<and> (spreadsheet x = None \<or> spreadsheet y = None \<longrightarrow> sheet_eq x y = Inl AssertionError)"
  by (auto simp: file_eq_def new_file_def sheet_eq_def split: option.splits)

theorem equality_by_remote_id_witness:
  "file_eq (new_file GoogleDriveFolder ''X'' (Some ''a'') None)
           (new_file GoogleDriveDocument ''X'' (Some ''b'') (Some ''text/plain''))
   \<and> \<not> file_eq book other_book
   \<and> sheet_eq page page = Inr True
   \<and> sheet_eq page other_page = Inr False
   \<and> sheet_eq orphan page = Inl AssertionError"
proof -
  have p: "spreadsheet page = Some book" "spreadsheet other_page = Some other_book"
    "spreadsheet orphan = None"
    by (simp_all add: page_def other_page_def orphan_def assign_spreadsheet_def new_sheet_def)
  have i: "file_id book = ''B1''" "file_id other_book = ''B2''"
    by (simp_all add: book_def other_book_def new_file_def)
  from equality_by_remote_id [of book other_book GoogleDriveFolder "''X''" "Some ''a''" None
         GoogleDriveDocument "''X''" "Some ''b''" "Some ''text/plain''" page page]
       equality_by_remote_id [where x = page and y = other_page]
       equality_by_remote_id [where x = orphan and y = page]
  show ?thesis
    by (simp add: p i)
qed

section \<open>Serialisation of colours and grid properties\<close>

text \<open>
  Claim C7.  Grid properties written to an item and read back are the same grid
  properties.  The item of a colour has exactly the keys \<open>red\<close>, \<open>green\<close> and \<open>blue\<close>,
  holding the three channels, and reading that item back gives the same colour.
\<close>

theorem items_round_trip:
  "grid_from_item (grid_to_item g) = Inr g
   \<and> color_to_item c ''red'' = Some (red c)
   \<and> color_to_item c ''green'' = Some (green c)
   \<and> color_to_item c ''blue'' = Some (blue c)
   \<and> dom (color_to_item c) = {''red'', ''green'', ''blue''}
   \<and> color_from_item (color_to_item c) = c"
  by (auto simp: grid_from_item_def grid_to_item_def color_to_item_def color_from_item_def
        new_color_def)

theorem items_round_trip_witness:
  "grid_from_item [''rowCount'' \<mapsto> 1000, ''columnCount'' \<mapsto> 26]
     = Inr \<lparr>row_count = 1000, column_count = 26\<rparr>
   \<and> color_from_item [''green'' \<mapsto> 0.5, ''blue'' \<mapsto> 0, ''red'' \<mapsto> 1]
     = \<lparr>red = 1, green = 0.5, blue = 0\<rparr>"
  using items_round_trip [of "\<lparr>row_count = 1000, column_count = 26\<rparr>"
          "\<lparr>red = 1, green = 0.5, blue = 0\<rparr>"]
  by (simp add: grid_to_item_def color_to_item_def)

section \<open>Getting a file by id\<close>


text \<open>
  After a successful request the body goes on to \<open>from_item\<close> and to
  \<open>set_api_service\<close>.  When the object has no such attribute, the \<open>AttributeError\<close> is no
  HTTP error and leaves \<open>get\<close>.
\<close>

lemma get_without_set_api_service:
  assumes "get_api_service api self = None"
    and "set_api_service api = None"
    and "files_get api i r = (Inr item, r')"
    and "item ''id'' = Some j"
  shows "manager_get api self i r = (Inl AttributeError, r')"
  using assms
  by (simp add: manager_get_def get_body_def get_item_def from_item_def)



section \<open>Deleting a file\<close>

text \<open>
  Claim C8 fails on the code.  \<open>delete\<close> returns without executing a request, whatever
  the client and the file: the remote state is the one it started from.  With the
  recording client no request is recorded, where executing the delete request would
  record it, and where \<open>copy\<close> records its request.
\<close>

theorem file_delete_executes_nothing:
  "snd (file_delete api f r) = r
   \<and> file_delete recording_api (new_file GoogleDriveFile ''f1'' None None) [] = (Inr (), [])
   \<and> snd (files_delete recording_api ''f1'' []) = [FilesDelete ''f1'']
   \<and> snd (file_copy recording_api (new_file GoogleDriveFile ''f1'' None None) ''copy'' [])
       = [FilesCopy ''f1'' ''copy'']"
  by (simp add: file_delete_def file_copy_def recording_api_def new_file_def split: option.splits)

end
